theory Spec2Isabelle
  imports Complex_Main
begin

section \<open>JavaScript numbers\<close>

text \<open>
  The knob keeps all its quantities as JavaScript Numbers. A Number is modelled as one
  of the three special values or a finite real: finite arithmetic is exact (binary
  rounding is not represented, and overflow only where a numeral is read from a string,
  which is where a number of any size can enter), and the two zeros are one value
  (\<^verbatim>\<open>-0 === 0\<close> in JavaScript, and the knob never divides by a stored zero).
  A field that may also hold \<^verbatim>\<open>null\<close> has type \<open>jsnum option\<close>, with
  \<open>None\<close> for \<^verbatim>\<open>null\<close>.
\<close>

datatype jsnum = NaN | PosInfinity | NegInfinity | Num real

text \<open>\<^verbatim>\<open>ToNumber\<close> on a number or \<^verbatim>\<open>null\<close>: \<^verbatim>\<open>null\<close> is \<open>+0\<close>.\<close>

fun to_number :: "jsnum option \<Rightarrow> jsnum" where
  "to_number None = Num 0"
| "to_number (Some x) = x"

text \<open>\<^verbatim>\<open>Number.isFinite\<close> does not convert its argument: \<^verbatim>\<open>null\<close> is not finite.\<close>

fun Number_isFinite :: "jsnum option \<Rightarrow> bool" where
  "Number_isFinite (Some (Num r)) = True"
| "Number_isFinite _ = False"

fun isNaN :: "jsnum \<Rightarrow> bool" where
  "isNaN NaN = True"
| "isNaN _ = False"

fun js_neg :: "jsnum \<Rightarrow> jsnum" where
  "js_neg NaN = NaN"
| "js_neg PosInfinity = NegInfinity"
| "js_neg NegInfinity = PosInfinity"
| "js_neg (Num a) = Num (- a)"

fun js_add :: "jsnum \<Rightarrow> jsnum \<Rightarrow> jsnum" where
  "js_add (Num a) (Num b) = Num (a + b)"
| "js_add NaN _ = NaN"
| "js_add _ NaN = NaN"
| "js_add PosInfinity NegInfinity = NaN"
| "js_add NegInfinity PosInfinity = NaN"
| "js_add PosInfinity _ = PosInfinity"
| "js_add _ PosInfinity = PosInfinity"
| "js_add NegInfinity _ = NegInfinity"
| "js_add _ NegInfinity = NegInfinity"

definition js_sub :: "jsnum \<Rightarrow> jsnum \<Rightarrow> jsnum" where
  "js_sub a b = js_add a (js_neg b)"

text \<open>The sign of an infinite product or quotient, for a non-zero finite factor.\<close>

definition signed_infinity :: "bool \<Rightarrow> jsnum" where
  "signed_infinity positive = (if positive then PosInfinity else NegInfinity)"

fun js_mul :: "jsnum \<Rightarrow> jsnum \<Rightarrow> jsnum" where
  "js_mul (Num a) (Num b) = Num (a * b)"
| "js_mul NaN _ = NaN"
| "js_mul _ NaN = NaN"
| "js_mul PosInfinity (Num b) = (if b = 0 then NaN else signed_infinity (0 < b))"
| "js_mul NegInfinity (Num b) = (if b = 0 then NaN else signed_infinity (b < 0))"
| "js_mul (Num a) PosInfinity = (if a = 0 then NaN else signed_infinity (0 < a))"
| "js_mul (Num a) NegInfinity = (if a = 0 then NaN else signed_infinity (a < 0))"
| "js_mul PosInfinity PosInfinity = PosInfinity"
| "js_mul NegInfinity NegInfinity = PosInfinity"
| "js_mul PosInfinity NegInfinity = NegInfinity"
| "js_mul NegInfinity PosInfinity = NegInfinity"

text \<open>Division; a zero divisor is read as \<open>+0\<close>.\<close>

fun js_div :: "jsnum \<Rightarrow> jsnum \<Rightarrow> jsnum" where
  "js_div (Num a) (Num b) =
     (if b = 0 then (if a = 0 then NaN else signed_infinity (0 < a)) else Num (a / b))"
| "js_div NaN _ = NaN"
| "js_div _ NaN = NaN"
| "js_div (Num a) PosInfinity = Num 0"
| "js_div (Num a) NegInfinity = Num 0"
| "js_div PosInfinity (Num b) = signed_infinity (0 \<le> b)"
| "js_div NegInfinity (Num b) = signed_infinity (b < 0)"
| "js_div PosInfinity PosInfinity = NaN"
| "js_div PosInfinity NegInfinity = NaN"
| "js_div NegInfinity PosInfinity = NaN"
| "js_div NegInfinity NegInfinity = NaN"

fun js_lt :: "jsnum \<Rightarrow> jsnum \<Rightarrow> bool" where
  "js_lt (Num a) (Num b) = (a < b)"
| "js_lt NaN _ = False"
| "js_lt _ NaN = False"
| "js_lt NegInfinity NegInfinity = False"
| "js_lt NegInfinity _ = True"
| "js_lt PosInfinity _ = False"
| "js_lt (Num a) PosInfinity = True"
| "js_lt (Num a) NegInfinity = False"

definition js_gt :: "jsnum \<Rightarrow> jsnum \<Rightarrow> bool" where
  "js_gt a b = js_lt b a"

text \<open>\<^verbatim>\<open>a >= b\<close> is false when either side is NaN, otherwise it is \<^verbatim>\<open>!(a < b)\<close>.\<close>

definition js_ge :: "jsnum \<Rightarrow> jsnum \<Rightarrow> bool" where
  "js_ge a b = (\<not> isNaN a \<and> \<not> isNaN b \<and> \<not> js_lt a b)"

definition js_le :: "jsnum \<Rightarrow> jsnum \<Rightarrow> bool" where
  "js_le a b = js_ge b a"

text \<open>
  \<^verbatim>\<open>a !== b\<close> on numbers and \<^verbatim>\<open>null\<close>: NaN differs from everything, itself
  included; \<^verbatim>\<open>null\<close> differs from every number.
\<close>

fun strict_eq :: "jsnum option \<Rightarrow> jsnum option \<Rightarrow> bool" where
  "strict_eq (Some a) (Some b) = (\<not> isNaN a \<and> \<not> isNaN b \<and> a = b)"
| "strict_eq None None = True"
| "strict_eq _ _ = False"

definition strict_ne :: "jsnum option \<Rightarrow> jsnum option \<Rightarrow> bool" where
  "strict_ne a b = (\<not> strict_eq a b)"

text \<open>\<^verbatim>\<open>Math.round\<close> rounds to the nearest integer, a half towards \<open>+\<infinity>\<close>.\<close>

fun Math_round :: "jsnum \<Rightarrow> jsnum" where
  "Math_round (Num a) = Num (of_int \<lfloor>a + 1 / 2\<rfloor>)"
| "Math_round x = x"


section \<open>Values passed to the property setters\<close>

text \<open>
  A setter receives \<^verbatim>\<open>null\<close> (a removed attribute), a Number (an assignment from
  script, the drag handler's among them) or a string (an attribute's text). A string
  is a list of code units below 256; of the white space that \<^verbatim>\<open>parseInt\<close> and
  \<^verbatim>\<open>parseFloat\<close> skip, these are the ASCII characters and the no-break space.
\<close>

datatype jsval = JSNull | JSNumber jsnum | JSString string

fun of_field :: "jsnum option \<Rightarrow> jsval" where
  "of_field None = JSNull"
| "of_field (Some x) = JSNumber x"

definition is_whitespace :: "char \<Rightarrow> bool" where
  "is_whitespace c =
     (c \<in> set [CHR 0x09, CHR 0x0A, CHR 0x0B, CHR 0x0C, CHR 0x0D, CHR '' '', CHR 0xA0])"

definition is_digit :: "char \<Rightarrow> bool" where
  "is_digit c = (c \<in> set ''0123456789'')"

definition digit_value :: "char \<Rightarrow> nat" where
  "digit_value c = of_char c - 48"

definition digits_value :: "string \<Rightarrow> nat" where
  "digits_value ds = foldl (\<lambda>n c. 10 * n + digit_value c) 0 ds"

text \<open>An optional sign in front of a numeral: whether it is a minus, and the rest.\<close>

fun split_sign :: "string \<Rightarrow> bool \<times> string" where
  "split_sign [] = (False, [])"
| "split_sign (c # r) =
     (if c = CHR ''-'' then (True, r) else if c = CHR ''+'' then (False, r) else (False, c # r))"

text \<open>
  The Number for the real value that a numeral denotes. Beyond the range of doubles it
  is an infinity: the bound \<open>2\<^sup>1\<^sup>0\<^sup>2\<^sup>4 - 2\<^sup>9\<^sup>7\<^sup>0\<close> is where rounding to nearest leaves the
  largest double. Within the range the value is kept as it is.
\<close>

definition number_of_real :: "real \<Rightarrow> jsnum" where
  "number_of_real r =
     (if 2 ^ 1024 - 2 ^ 970 \<le> \<bar>r\<bar> then signed_infinity (0 < r) else Num r)"

text \<open>
  \<^verbatim>\<open>parseInt(s, 10)\<close> on a string: skip white space, read a sign, then the longest
  run of decimal digits; NaN when there is no digit, an infinity when the integer read
  is beyond the range of doubles.
\<close>

definition parseInt_string :: "string \<Rightarrow> jsnum" where
  "parseInt_string s =
     (let (negative, r) = split_sign (dropWhile is_whitespace s);
          z = takeWhile is_digit r
      in if z = [] then NaN
         else number_of_real
                (of_int (if negative then - int (digits_value z) else int (digits_value z))))"

text \<open>
  \<^verbatim>\<open>parseInt\<close> applied to a Number reads the integer in front of the first
  \<^verbatim>\<open>.\<close> or \<^verbatim>\<open>e\<close> of the number's decimal rendering: the integer part when the
  magnitude is in \<open>[10\<^sup>-\<^sup>6, 10\<^sup>2\<^sup>1)\<close>, where the rendering is positional, and the
  leading digit where it is exponential.
\<close>

definition leading_digit :: "real \<Rightarrow> int" where
  "leading_digit a = \<lfloor>a / 10 powr of_int \<lfloor>log 10 a\<rfloor>\<rfloor>"

fun parseInt_number :: "jsnum \<Rightarrow> jsnum" where
  "parseInt_number (Num r) =
     (let a = \<bar>r\<bar>;
          m = (if a = 0 then 0
               else if 1 / 10 ^ 6 \<le> a \<and> a < 10 ^ 21 then \<lfloor>a\<rfloor>
               else leading_digit a)
      in Num (of_int (if r < 0 then - m else m)))"
| "parseInt_number _ = NaN"

fun parseInt :: "jsval \<Rightarrow> jsnum" where
  "parseInt JSNull = NaN"
| "parseInt (JSNumber x) = parseInt_number x"
| "parseInt (JSString s) = parseInt_string s"

text \<open>
  \<^verbatim>\<open>parseFloat\<close> on a string reads the longest prefix that is a decimal literal:
  \<^verbatim>\<open>Infinity\<close>, or digits with an optional fraction and an optional exponent.
\<close>

definition parse_exponent :: "string \<Rightarrow> int" where
  "parse_exponent s =
     (case s of
        [] \<Rightarrow> 0
      | c # r \<Rightarrow>
          if c = CHR ''e'' \<or> c = CHR ''E'' then
            (let (negative, r') = split_sign r;
                 ds = takeWhile is_digit r'
             in if negative then - int (digits_value ds) else int (digits_value ds))
          else 0)"

definition scale10 :: "real \<Rightarrow> int \<Rightarrow> real" where
  "scale10 m e = (if 0 \<le> e then m * 10 ^ nat e else m / 10 ^ nat (- e))"

definition parse_unsigned :: "string \<Rightarrow> jsnum" where
  "parse_unsigned s =
     (if take 8 s = ''Infinity'' then PosInfinity
      else
        let ip = takeWhile is_digit s;
            r1 = dropWhile is_digit s;
            (fp, r2) = (case r1 of
                          [] \<Rightarrow> ([], [])
                        | c # r \<Rightarrow>
                            if c = CHR ''.'' then (takeWhile is_digit r, dropWhile is_digit r)
                            else ([], r1))
        in if ip = [] \<and> fp = [] then NaN
           else number_of_real
                  (scale10 (real (digits_value ip) + real (digits_value fp) / 10 ^ length fp)
                     (parse_exponent r2)))"

definition parseFloat_string :: "string \<Rightarrow> jsnum" where
  "parseFloat_string s =
     (let (negative, r) = split_sign (dropWhile is_whitespace s)
      in if negative then js_neg (parse_unsigned r) else parse_unsigned r)"

text \<open>
  On a Number \<^verbatim>\<open>parseFloat\<close> reads back the number's own rendering, which denotes
  that number.
\<close>

fun parseFloat :: "jsval \<Rightarrow> jsnum" where
  "parseFloat JSNull = NaN"
| "parseFloat (JSNumber x) = x"
| "parseFloat (JSString s) = parseFloat_string s"

section \<open>Convenience functions to sanitize numbers\<close>

definition float_or_default :: "jsval \<Rightarrow> jsnum option \<Rightarrow> jsnum option" where
  "float_or_default x def = (let x' = parseFloat x in if isNaN x' then def else Some x')"

definition int_or_default :: "jsval \<Rightarrow> jsnum option \<Rightarrow> jsnum option" where
  "int_or_default x def = (let x' = parseInt x in if isNaN x' then def else Some x')"

section \<open>The knob element\<close>

text \<open>
  The private fields of an \<^verbatim>\<open>x-knob\<close> element that carry its value logic
  (\<^verbatim>\<open>_divisions\<close>, \<^verbatim>\<open>_min\<close>, \<^verbatim>\<open>_max\<close>, \<^verbatim>\<open>_value\<close>). The shadow tree and the
  rotation written to it by \<^verbatim>\<open>_update_gfx_rotation\<close> are output only and are left out.
\<close>

record xknob =
  knob_divisions :: "jsnum option"
  knob_min :: "jsnum option"
  knob_max :: "jsnum option"
  knob_value :: "jsnum option"

text \<open>The defaults set by \<^verbatim>\<open>createdCallback\<close>.\<close>

definition created :: xknob where
  "created = \<lparr>knob_divisions = Some (Num 0), knob_min = None, knob_max = None,
              knob_value = Some (Num 0)\<rparr>"

text \<open>\<^verbatim>\<open>_update_value\<close>: four guarded assignments to \<^verbatim>\<open>_value\<close>, one after the other.\<close>

definition update_value :: "xknob \<Rightarrow> xknob" where
  "update_value k =
     (let k1 = (if \<not> Number_isFinite (knob_value k) then k\<lparr>knob_value := Some (Num 0)\<rparr> else k);
          k2 = (if Number_isFinite (knob_divisions k1)
                   \<and> js_ge (to_number (knob_divisions k1)) (Num 2)
                then k1\<lparr>knob_value :=
                        Some (js_div (Math_round (js_mul (to_number (knob_value k1))
                                                         (to_number (knob_divisions k1))))
                                     (to_number (knob_divisions k1)))\<rparr>
                else k1);
          k3 = (if Number_isFinite (knob_max k2)
                   \<and> js_gt (to_number (knob_value k2)) (to_number (knob_max k2))
                then k2\<lparr>knob_value := knob_max k2\<rparr> else k2);
          k4 = (if Number_isFinite (knob_min k3)
                   \<and> js_lt (to_number (knob_value k3)) (to_number (knob_min k3))
                then k3\<lparr>knob_value := knob_min k3\<rparr> else k3)
      in k4)"

text \<open>The property setters.\<close>

definition set_divisions :: "jsval \<Rightarrow> xknob \<Rightarrow> xknob" where
  "set_divisions x k = update_value (k\<lparr>knob_divisions := int_or_default x (Some (Num 0))\<rparr>)"

definition set_min :: "jsval \<Rightarrow> xknob \<Rightarrow> xknob" where
  "set_min x k = update_value (k\<lparr>knob_min := float_or_default x None\<rparr>)"

definition set_max :: "jsval \<Rightarrow> xknob \<Rightarrow> xknob" where
  "set_max x k = update_value (k\<lparr>knob_max := float_or_default x None\<rparr>)"

definition set_value :: "jsval \<Rightarrow> xknob \<Rightarrow> xknob" where
  "set_value x k = update_value (k\<lparr>knob_value := float_or_default x (Some (Num 0))\<rparr>)"


section \<open>Pointer events and the angle of the pointer\<close>

text \<open>
  What the handlers read from an event. \<open>ev_target\<close> is the kind of node the event
  was fired at; \<open>ev_currentTarget\<close> is the node the listener is attached to, followed
  by its chain of \<^verbatim>\<open>parentNode\<close>s; \<open>ev_targetTouches\<close> is empty for a mouse event;
  \<open>ev_center_rect\<close> is what \<^verbatim>\<open>getBoundingClientRect\<close> answers for the knob's
  \<^verbatim>\<open>.knob_center\<close> marker while the event is handled. Coordinates are finite, as
  the browser delivers them.
\<close>

datatype event_type = Mousedown | Touchstart | Mousemove | Touchmove | Mouseup | Touchend

datatype node_kind = HTMLElement_node | Document_node | Other_node

datatype dom_node = Plain_node | ShadowRoot "nat option"

record dom_rect =
  rect_left :: real
  rect_right :: real
  rect_top :: real
  rect_bottom :: real

record event =
  ev_type :: event_type
  ev_button :: int
  ev_target :: node_kind
  ev_currentTarget :: "dom_node list"
  ev_clientX :: real
  ev_clientY :: real
  ev_targetTouches :: "(real \<times> real) list"
  ev_center_rect :: dom_rect

text \<open>
  \<^verbatim>\<open>Math.atan2(y, x)\<close> on finite arguments, with result in \<open>(-\<pi>, \<pi>]\<close>; a zero
  argument is \<open>+0\<close>, as a difference of two coordinates is.
\<close>

definition atan2 :: "real \<Rightarrow> real \<Rightarrow> real" where
  "atan2 y x =
     (if 0 < x then arctan (y / x)
      else if x < 0 then (if 0 \<le> y then arctan (y / x) + pi else arctan (y / x) - pi)
      else if 0 < y then pi / 2
      else if y < 0 then - (pi / 2)
      else 0)"

definition get_center_position :: "dom_rect \<Rightarrow> real \<times> real" where
  "get_center_position rect =
     (rect_left rect + (rect_right rect - rect_left rect) / 2,
      rect_top rect + (rect_bottom rect - rect_top rect) / 2)"

definition get_mouse_angle :: "event \<Rightarrow> real" where
  "get_mouse_angle ev =
     (let center = get_center_position (ev_center_rect ev);
          cursor = (case ev_targetTouches ev of
                      [] \<Rightarrow> (ev_clientX ev, ev_clientY ev)
                    | t # _ \<Rightarrow> t);
          rad = atan2 (snd cursor - snd center) (fst cursor - fst center)
      in rad + pi / 2)"

section \<open>Global state of the drag handling\<close>

text \<open>
  The page: its knobs (by identity), the four global variables of the drag handling,
  whether the document carries the move and release listeners, and the observable
  effects of the handlers in the order they happen. The page has one document. A
  failed \<^verbatim>\<open>console.assert\<close> is an effect. What the page's own listeners do when
  an \<^verbatim>\<open>input\<close> or \<^verbatim>\<open>change\<close> event reaches them is not part of the knob.
\<close>

datatype notification = Input | Change

datatype effect = PreventDefault | StopPropagation | DispatchEvent nat notification
  | AssertionFailed

record world =
  knobs :: "nat \<Rightarrow> xknob"
  xknob_being_dragged :: "nat option"
  xknob_drag_previous_angle :: "jsnum option"
  xknob_drag_previous_value :: "jsnum option"
  xknob_drag_initial_value :: "jsnum option"
  document_listeners :: bool
  trace :: "effect list"

definition initial_world :: world where
  "initial_world = \<lparr>knobs = (\<lambda>_. created), xknob_being_dragged = None,
     xknob_drag_previous_angle = None, xknob_drag_previous_value = None,
     xknob_drag_initial_value = None, document_listeners = False, trace = []\<rparr>"

text \<open>
  The node whose listeners are touched: the owner document of an HTML element,
  otherwise the node itself.
\<close>

fun listener_node :: "node_kind \<Rightarrow> node_kind" where
  "listener_node HTMLElement_node = Document_node"
| "listener_node elem = elem"

definition add_listeners_to_document :: "node_kind \<Rightarrow> world \<Rightarrow> world" where
  "add_listeners_to_document elem w =
     (if listener_node elem = Document_node then w\<lparr>document_listeners := True\<rparr> else w)"

definition remove_listeners_from_document :: "node_kind \<Rightarrow> world \<Rightarrow> world" where
  "remove_listeners_from_document elem w =
     (if listener_node elem = Document_node then w\<lparr>document_listeners := False\<rparr> else w)"

text \<open>
  The walk from \<^verbatim>\<open>ev.currentTarget\<close> up to the first shadow root: \<open>None\<close> when the
  chain ends without one, otherwise the root's \<^verbatim>\<open>host\<close>.
\<close>

fun find_shadow_root :: "dom_node list \<Rightarrow> nat option option" where
  "find_shadow_root [] = None"
| "find_shadow_root (ShadowRoot host # _) = Some host"
| "find_shadow_root (Plain_node # parents) = find_shadow_root parents"

definition set_knob :: "nat \<Rightarrow> (xknob \<Rightarrow> xknob) \<Rightarrow> world \<Rightarrow> world" where
  "set_knob xk f w = w\<lparr>knobs := (knobs w)(xk := f (knobs w xk))\<rparr>"

definition emit :: "effect list \<Rightarrow> world \<Rightarrow> world" where
  "emit es w = w\<lparr>trace := trace w @ es\<rparr>"

definition start_dragging :: "event \<Rightarrow> world \<Rightarrow> world" where
  "start_dragging ev w =
     (let w1 = remove_listeners_from_document (ev_target ev) w;
          w2 = w1\<lparr>xknob_being_dragged := None\<rparr>
      in if ev_type ev = Mousedown \<and> ev_button ev \<noteq> 0 then w2
         else case find_shadow_root (ev_currentTarget ev) of
                None \<Rightarrow> w2
              | Some None \<Rightarrow> w2
              | Some (Some xknob) \<Rightarrow>
                  (let w3 = emit [PreventDefault, StopPropagation] w2;
                       w4 = w3\<lparr>xknob_being_dragged := Some xknob\<rparr>;
                       w5 = w4\<lparr>xknob_drag_previous_angle := Some (Num (get_mouse_angle ev))\<rparr>;
                       w6 = w5\<lparr>xknob_drag_previous_value := knob_value (knobs w5 xknob)\<rparr>;
                       w7 = w6\<lparr>xknob_drag_initial_value := knob_value (knobs w6 xknob)\<rparr>
                   in add_listeners_to_document HTMLElement_node w7))"

definition stop_dragging :: "event \<Rightarrow> world \<Rightarrow> world" where
  "stop_dragging ev w =
     (case xknob_being_dragged w of
        None \<Rightarrow> remove_listeners_from_document (ev_target ev) w
      | Some xknob \<Rightarrow>
          (let w1 = (if strict_ne (xknob_drag_initial_value w) (knob_value (knobs w xknob))
                     then emit [DispatchEvent xknob Change] w else w);
               w2 = remove_listeners_from_document (ev_target ev) w1
           in w2\<lparr>xknob_being_dragged := None\<rparr>))"

text \<open>The shortest signed turn from the old angle to the new one (lines 128 to 136).\<close>

definition delta_angle :: "jsnum \<Rightarrow> jsnum option \<Rightarrow> jsnum" where
  "delta_angle new_angle old_angle =
     (let d0 = js_sub new_angle (to_number old_angle);
          d1 = (if js_lt d0 (Num 0) then js_add d0 (js_mul (Num pi) (Num 2)) else d0);
          d2 = (if js_gt d1 (Num pi) then js_sub d1 (js_mul (Num pi) (Num 2)) else d1)
      in d2)"

definition drag_rotate :: "event \<Rightarrow> world \<Rightarrow> world" where
  "drag_rotate ev w =
     (case xknob_being_dragged w of
        None \<Rightarrow> remove_listeners_from_document (ev_target ev) w
      | Some xknob \<Rightarrow>
          (let new_angle = Num (get_mouse_angle ev);
               old_angle = xknob_drag_previous_angle w;
               w1 = w\<lparr>xknob_drag_previous_angle := Some new_angle\<rparr>;
               d = delta_angle new_angle old_angle;
               w2 = (if js_ge d (js_neg (Num pi)) \<and> js_le d (Num pi) then w1
                     else emit [AssertionFailed] w1);
               delta_value = js_div (js_div d (Num pi)) (Num 2);
               new_proposed_value = js_add (to_number (xknob_drag_previous_value w2)) delta_value;
               w3 = w2\<lparr>xknob_drag_previous_value := Some new_proposed_value\<rparr>;
               old_actual_value = knob_value (knobs w3 xknob);
               w4 = set_knob xknob (set_value (JSNumber new_proposed_value)) w3;
               new_actual_value = knob_value (knobs w4 xknob)
           in if strict_ne old_actual_value new_actual_value
              then emit [DispatchEvent xknob Input] w4 else w4))"

section \<open>Runs of the page\<close>

text \<open>
  What can happen to the page: a script or an attribute sets a property of a knob, or
  the browser calls one of the three handlers with an event.
\<close>

datatype action = Set_divisions nat jsval | Set_min nat jsval | Set_max nat jsval
  | Set_value nat jsval | Pointer_down event | Pointer_move event | Pointer_up event

fun step :: "action \<Rightarrow> world \<Rightarrow> world" where
  "step (Set_divisions xk x) w = set_knob xk (set_divisions x) w"
| "step (Set_min xk x) w = set_knob xk (set_min x) w"
| "step (Set_max xk x) w = set_knob xk (set_max x) w"
| "step (Set_value xk x) w = set_knob xk (set_value x) w"
| "step (Pointer_down ev) w = start_dragging ev w"
| "step (Pointer_move ev) w = drag_rotate ev w"
| "step (Pointer_up ev) w = stop_dragging ev w"

definition run :: "action list \<Rightarrow> world \<Rightarrow> world" where
  "run acts w = fold step acts w"

text \<open>The notifications among the effects, in order.\<close>

fun notifications :: "effect list \<Rightarrow> (nat \<times> notification) list" where
  "notifications [] = []"
| "notifications (DispatchEvent xk n # es) = (xk, n) # notifications es"
| "notifications (_ # es) = notifications es"

section \<open>The value transform as the specification words it\<close>

text \<open>
  The four steps of the specification's \<open>apply\<close>, each a function of the candidate
  value, composed in the stated order: sanitize, quantize, clamp high, clamp low.
\<close>

definition sanitize_step :: "jsnum option \<Rightarrow> jsnum option" where
  "sanitize_step raw = (if Number_isFinite raw then raw else Some (Num 0))"

definition quantize_step :: "jsnum option \<Rightarrow> jsnum option \<Rightarrow> jsnum option" where
  "quantize_step divisions raw =
     (if Number_isFinite divisions \<and> js_ge (to_number divisions) (Num 2)
      then Some (js_div (Math_round (js_mul (to_number raw) (to_number divisions)))
                        (to_number divisions))
      else raw)"

definition clamp_high_step :: "jsnum option \<Rightarrow> jsnum option \<Rightarrow> jsnum option" where
  "clamp_high_step mx raw =
     (if Number_isFinite mx \<and> js_gt (to_number raw) (to_number mx) then mx else raw)"

definition clamp_low_step :: "jsnum option \<Rightarrow> jsnum option \<Rightarrow> jsnum option" where
  "clamp_low_step mn raw =
     (if Number_isFinite mn \<and> js_lt (to_number raw) (to_number mn) then mn else raw)"

definition ValueTransform_apply ::
    "jsnum option \<Rightarrow> jsnum option \<Rightarrow> jsnum option \<Rightarrow> jsnum option \<Rightarrow> jsnum option" where
  "ValueTransform_apply raw mn mx divisions =
     clamp_low_step mn (clamp_high_step mx (quantize_step divisions (sanitize_step raw)))"


section \<open>Integers, and a page to try the handlers on\<close>

text \<open>
  A stored number that is a finite integer; one that is an integer or an infinity; and
  the decimal text of \<open>10\<^sup>3\<^sup>0\<^sup>9\<close>, which is beyond the range of doubles.
\<close>

fun is_integer :: "jsnum option \<Rightarrow> bool" where
  "is_integer (Some (Num r)) = (of_int \<lfloor>r\<rfloor> = r)"
| "is_integer _ = False"

definition integer_or_infinity :: "jsnum option \<Rightarrow> bool" where
  "integer_or_infinity d = (is_integer d \<or> d = Some PosInfinity \<or> d = Some NegInfinity)"

definition huge_numeral :: string where
  "huge_numeral = CHR ''1'' # replicate 309 (CHR ''0'')"

text \<open>
  A mouse event for knob \<open>0\<close>, fired at a node of kind \<open>n\<close> with the pointer at
  \<open>(x, y)\<close>: the knob's centre marker is at the origin, the listener's node is the
  \<^verbatim>\<open>.knob_gfx\<close> group, whose parent is the \<^verbatim>\<open>svg\<close> element under the knob's
  shadow root.
\<close>

definition mouse_event :: "event_type \<Rightarrow> int \<Rightarrow> node_kind \<Rightarrow> real \<Rightarrow> real \<Rightarrow> event" where
  "mouse_event t b n x y =
     \<lparr>ev_type = t, ev_button = b, ev_target = n,
      ev_currentTarget = [Plain_node, Plain_node, ShadowRoot (Some 0)],
      ev_clientX = x, ev_clientY = y, ev_targetTouches = [],
      ev_center_rect = \<lparr>rect_left = - 1, rect_right = 1, rect_top = - 1, rect_bottom = 1\<rparr>\<rparr>"

text \<open>
  A press of the primary button straight above the centre (screen \<open>y\<close> grows downwards),
  a move to the right of the centre (a quarter turn clockwise), a move back, a release,
  and a press of the secondary button. A press is fired at a shape of the knob's
  graphics, which is no HTML element; the moves and the release are fired at HTML
  elements of the page.
\<close>

definition press_up :: event where
  "press_up = mouse_event Mousedown 0 Other_node 0 (- 1)"

definition move_right :: event where
  "move_right = mouse_event Mousemove 0 HTMLElement_node 1 0"

definition move_up :: event where
  "move_up = mouse_event Mousemove 0 HTMLElement_node 0 (- 1)"

definition release :: event where
  "release = mouse_event Mouseup 0 HTMLElement_node 1 0"

definition press_secondary :: event where
  "press_secondary = mouse_event Mousedown 2 Other_node 0 (- 1)"

text \<open>The page after the press, and after the press and the move to the right.\<close>

definition pressed :: world where
  "pressed = start_dragging press_up initial_world"

definition turned :: world where
  "turned = drag_rotate move_right pressed"

text \<open>The same page with knob \<open>0\<close> limited to \<open>max = 0\<close>, after the press.\<close>

definition pressed_at_max :: world where
  "pressed_at_max =
     start_dragging press_up (set_knob 0 (set_max (JSNumber (Num 0))) initial_world)"

section \<open>The value transform\<close>

lemma update_value_eq:
  "update_value k = k\<lparr>knob_value :=
     ValueTransform_apply (knob_value k) (knob_min k) (knob_max k) (knob_divisions k)\<rparr>"
proof -
  define k1 where "k1 =
    (if \<not> Number_isFinite (knob_value k) then k\<lparr>knob_value := Some (Num 0)\<rparr> else k)"
  define k2 where "k2 =
    (if Number_isFinite (knob_divisions k1) \<and> js_ge (to_number (knob_divisions k1)) (Num 2)
     then k1\<lparr>knob_value :=
             Some (js_div (Math_round (js_mul (to_number (knob_value k1))
                                              (to_number (knob_divisions k1))))
                          (to_number (knob_divisions k1)))\<rparr>
     else k1)"
  define k3 where "k3 =
    (if Number_isFinite (knob_max k2) \<and> js_gt (to_number (knob_value k2)) (to_number (knob_max k2))
     then k2\<lparr>knob_value := knob_max k2\<rparr> else k2)"
  define k4 where "k4 =
    (if Number_isFinite (knob_min k3) \<and> js_lt (to_number (knob_value k3)) (to_number (knob_min k3))
     then k3\<lparr>knob_value := knob_min k3\<rparr> else k3)"
  define v1 where "v1 = sanitize_step (knob_value k)"
  define v2 where "v2 = quantize_step (knob_divisions k) v1"
  define v3 where "v3 = clamp_high_step (knob_max k) v2"
  have e1: "k1 = k\<lparr>knob_value := v1\<rparr>"
    unfolding k1_def v1_def by (simp add: sanitize_step_def)
  have e2: "k2 = k\<lparr>knob_value := v2\<rparr>"
    unfolding k2_def v2_def e1 by (simp add: quantize_step_def)
  have e3: "k3 = k\<lparr>knob_value := v3\<rparr>"
    unfolding k3_def v3_def e2 by (simp add: clamp_high_step_def)
  have e4: "k4 = k\<lparr>knob_value := clamp_low_step (knob_min k) v3\<rparr>"
    unfolding k4_def e3 by (simp add: clamp_low_step_def)
  have "update_value k = k4"
    unfolding update_value_def Let_def k4_def k3_def k2_def k1_def by (rule refl)
  then show ?thesis
    by (simp add: e4 v3_def v2_def v1_def ValueTransform_apply_def)
qed

lemma update_value_fields:
  "knob_divisions (update_value k) = knob_divisions k"
  "knob_min (update_value k) = knob_min k"
  "knob_max (update_value k) = knob_max k"
  "knob_value (update_value k) =
     ValueTransform_apply (knob_value k) (knob_min k) (knob_max k) (knob_divisions k)"
  by (simp_all add: update_value_eq)

lemma isFinite_cases: "Number_isFinite v \<longleftrightarrow> (\<exists>r. v = Some (Num r))"
  by (cases v rule: Number_isFinite.cases) simp_all

lemma sanitize_finite: "Number_isFinite (sanitize_step raw)"
  by (simp add: sanitize_step_def)

lemma quantize_finite: "Number_isFinite raw \<Longrightarrow> Number_isFinite (quantize_step d raw)"
  by (auto simp add: quantize_step_def isFinite_cases js_ge_def)

lemma clamp_high_finite: "Number_isFinite raw \<Longrightarrow> Number_isFinite (clamp_high_step m raw)"
  by (simp add: clamp_high_step_def)

lemma clamp_low_finite: "Number_isFinite raw \<Longrightarrow> Number_isFinite (clamp_low_step m raw)"
  by (simp add: clamp_low_step_def)

lemma apply_finite: "Number_isFinite (ValueTransform_apply raw mn mx d)"
  unfolding ValueTransform_apply_def
  by (intro clamp_low_finite clamp_high_finite quantize_finite sanitize_finite)

lemma float_or_default_number:
  "sanitize_step (float_or_default (JSNumber x) (Some (Num 0))) = sanitize_step (Some x)"
  by (cases x) (simp_all add: float_or_default_def sanitize_step_def)

lemma set_value_number:
  "knob_value (set_value (JSNumber x) k) =
     ValueTransform_apply (Some x) (knob_min k) (knob_max k) (knob_divisions k)"
  using float_or_default_number [of x]
  by (simp add: set_value_def update_value_eq ValueTransform_apply_def)

text \<open>
  Claim C1. \<^verbatim>\<open>_update_value\<close> computes the specification's \<open>apply\<close>: sanitize, then
  quantize, then clamp to \<open>max\<close>, then clamp to \<open>min\<close>, on the stored value and the knob's
  own \<open>min\<close>, \<open>max\<close> and \<open>divisions\<close>, which it leaves as they are. Assigning any Number
  \<open>x\<close> (NaN and the infinities included) to \<^verbatim>\<open>value\<close> stores \<open>apply x\<close>. The
  function is total: for every input it stores a number, never \<^verbatim>\<open>null\<close> and
  never NaN.
\<close>

theorem update_value_is_ValueTransform_apply:
  "knob_value (update_value k) =
     ValueTransform_apply (knob_value k) (knob_min k) (knob_max k) (knob_divisions k)
   \<and> knob_value (set_value (JSNumber x) k) =
     ValueTransform_apply (Some x) (knob_min k) (knob_max k) (knob_divisions k)
   \<and> (\<exists>y. knob_value (update_value k) = Some y \<and> \<not> isNaN y)
   \<and> (\<exists>y. knob_value (set_value (JSNumber x) k) = Some y \<and> \<not> isNaN y)
   \<and> knob_divisions (update_value k) = knob_divisions k
   \<and> knob_min (update_value k) = knob_min k
   \<and> knob_max (update_value k) = knob_max k"
  using apply_finite [of "knob_value k" "knob_min k" "knob_max k" "knob_divisions k"]
      apply_finite [of "Some x" "knob_min k" "knob_max k" "knob_divisions k"]
  by (auto simp add: set_value_number update_value_fields isFinite_cases)


lemma apply_min_wins:
  assumes "Number_isFinite mn" and "Number_isFinite mx"
    and "js_gt (to_number mn) (to_number mx)"
  shows "ValueTransform_apply raw mn mx d = mn"
proof -
  obtain a where a: "mn = Some (Num a)" using assms(1) by (auto simp: isFinite_cases)
  obtain b where b: "mx = Some (Num b)" using assms(2) by (auto simp: isFinite_cases)
  have ab: "b < a" using assms(3) by (simp add: a b js_gt_def)
  have "Number_isFinite (quantize_step d (sanitize_step raw))"
    by (intro quantize_finite sanitize_finite)
  then obtain q where q: "quantize_step d (sanitize_step raw) = Some (Num q)"
    by (auto simp: isFinite_cases)
  show ?thesis
    using ab by (simp add: ValueTransform_apply_def q a b clamp_high_step_def clamp_low_step_def js_gt_def)
qed

text \<open>
  Claim C10. When \<open>min\<close> and \<open>max\<close> are both finite and \<open>min > max\<close>, the clamp to
  \<open>min\<close>, which comes last, decides: \<^verbatim>\<open>_update_value\<close> stores \<open>min\<close> whatever the
  value was, and so does every assignment to \<^verbatim>\<open>value\<close>, which leaves \<open>min\<close> and
  \<open>max\<close> as they are.
\<close>

theorem min_wins_when_min_exceeds_max:
  assumes "Number_isFinite (knob_min k)" and "Number_isFinite (knob_max k)"
    and "js_gt (to_number (knob_min k)) (to_number (knob_max k))"
  shows "knob_value (update_value k) = knob_min k
    \<and> knob_value (set_value x k) = knob_min k
    \<and> knob_min (set_value x k) = knob_min k
    \<and> knob_max (set_value x k) = knob_max k"
  using assms by (simp add: set_value_def update_value_fields apply_min_wins)

text \<open>With \<open>min = 2\<close> and \<open>max = 1\<close>, assigning \<open>7\<close> stores \<open>2\<close>.\<close>

theorem min_wins_when_min_exceeds_max_witness:
  "knob_value (set_value (JSNumber (Num 7))
      \<lparr>knob_divisions = Some (Num 4), knob_min = Some (Num 2), knob_max = Some (Num 1),
       knob_value = Some (Num 0)\<rparr>) = Some (Num 2)"
  using min_wins_when_min_exceeds_max [of
      "\<lparr>knob_divisions = Some (Num 4), knob_min = Some (Num 2), knob_max = Some (Num 1),
        knob_value = Some (Num 0)\<rparr>" "JSNumber (Num 7)"]
  by (simp add: js_gt_def)

text \<open>
  Claim C5. The value transform is not idempotent at a clamp boundary. With four
  divisions and \<open>max = 5/16\<close>, which is no multiple of \<open>1/4\<close>, the value \<open>1/2\<close> is
  clamped to \<open>5/16\<close>, and a second run quantizes \<open>5/16\<close> to \<open>1/4\<close>. With \<open>min = 7/16\<close> the
  value \<open>1/4\<close> is raised to \<open>7/16\<close>, and a second run quantizes \<open>7/16\<close> to \<open>1/2\<close>.
\<close>

theorem sanitization_not_idempotent_at_boundary:
  "(\<exists>k d m. knob_divisions k = Some (Num (of_int d)) \<and> 2 \<le> d \<and> knob_max k = Some (Num m)
       \<and> m * of_int d \<notin> \<int>
       \<and> knob_value (update_value k) = knob_max k
       \<and> knob_value (update_value (update_value k)) \<noteq> knob_value (update_value k))
   \<and> (\<exists>k d m. knob_divisions k = Some (Num (of_int d)) \<and> 2 \<le> d \<and> knob_min k = Some (Num m)
       \<and> m * of_int d \<notin> \<int>
       \<and> knob_value (update_value k) = knob_min k
       \<and> knob_value (update_value (update_value k)) \<noteq> knob_value (update_value k))"
proof (intro conjI)
  let ?k = "\<lparr>knob_divisions = Some (Num 4), knob_min = None, knob_max = Some (Num (5 / 16)),
        knob_value = Some (Num (1 / 2))\<rparr>"
  have n: "(5 / 16 * of_int 4 :: real) \<notin> \<int>"
    by (simp add: frac_eq_0_iff [symmetric] frac_def)
  have 1: "knob_value (update_value ?k) = Some (Num (5 / 16))"
    by (simp add: update_value_def js_ge_def js_gt_def)
  have 2: "update_value ?k = ?k\<lparr>knob_value := Some (Num (5 / 16))\<rparr>"
    by (simp add: update_value_def js_ge_def js_gt_def)
  have 3: "knob_value (update_value (update_value ?k)) = Some (Num (1 / 4))"
    unfolding 2 by (simp add: update_value_def js_ge_def js_gt_def)
  show "\<exists>k d m. knob_divisions k = Some (Num (of_int d)) \<and> 2 \<le> d \<and> knob_max k = Some (Num m)
       \<and> m * of_int d \<notin> \<int>
       \<and> knob_value (update_value k) = knob_max k
       \<and> knob_value (update_value (update_value k)) \<noteq> knob_value (update_value k)"
    apply (rule exI [of _ ?k], rule exI [of _ 4], rule exI [of _ "5 / 16"])
    using n by (simp add: 1 3)
next
  let ?k = "\<lparr>knob_divisions = Some (Num 4), knob_min = Some (Num (7 / 16)), knob_max = None,
        knob_value = Some (Num (1 / 4))\<rparr>"
  have n: "(7 / 16 * of_int 4 :: real) \<notin> \<int>"
    by (simp add: frac_eq_0_iff [symmetric] frac_def)
  have 1: "knob_value (update_value ?k) = Some (Num (7 / 16))"
    by (simp add: update_value_def js_ge_def js_gt_def)
  have 2: "update_value ?k = ?k\<lparr>knob_value := Some (Num (7 / 16))\<rparr>"
    by (simp add: update_value_def js_ge_def js_gt_def)
  have 3: "knob_value (update_value (update_value ?k)) = Some (Num (1 / 2))"
    unfolding 2 by (simp add: update_value_def js_ge_def js_gt_def)
  show "\<exists>k d m. knob_divisions k = Some (Num (of_int d)) \<and> 2 \<le> d \<and> knob_min k = Some (Num m)
       \<and> m * of_int d \<notin> \<int>
       \<and> knob_value (update_value k) = knob_min k
       \<and> knob_value (update_value (update_value k)) \<noteq> knob_value (update_value k)"
    apply (rule exI [of _ ?k], rule exI [of _ 4], rule exI [of _ "7 / 16"])
    using n by (simp add: 1 3)
qed

section \<open>The drag handlers\<close>

lemma isNaN_iff: "isNaN x \<longleftrightarrow> x = NaN"
  by (cases x) simp_all


lemma strict_ne_iff: "b \<noteq> Some NaN \<Longrightarrow> strict_ne a b \<longleftrightarrow> a \<noteq> b"
  by (cases a; cases b) (auto simp add: strict_ne_def isNaN_iff)


lemma strict_ne_iff': "a \<noteq> Some NaN \<Longrightarrow> strict_ne a b \<longleftrightarrow> a \<noteq> b"
  by (cases a; cases b) (auto simp add: strict_ne_def isNaN_iff)


lemma finite_not_NaN: "Number_isFinite v \<Longrightarrow> v \<noteq> Some NaN"
  by (auto simp add: isFinite_cases)


lemma set_value_finite: "Number_isFinite (knob_value (set_value x k))"
  by (simp add: set_value_def update_value_fields apply_finite)


lemma notifications_append: "notifications (a @ b) = notifications a @ notifications b"
  by (induction a rule: notifications.induct) simp_all


lemma drag_rotate_active:
  assumes "xknob_being_dragged w = Some k"
  shows "xknob_being_dragged (drag_rotate ev w) = Some k"
    and "xknob_drag_initial_value (drag_rotate ev w) = xknob_drag_initial_value w"
    and "xknob_drag_previous_angle (drag_rotate ev w) = Some (Num (get_mouse_angle ev))"
    and "xknob_drag_previous_value (drag_rotate ev w) =
          Some (js_add (to_number (xknob_drag_previous_value w))
                  (js_div (js_div (delta_angle (Num (get_mouse_angle ev))
                                     (xknob_drag_previous_angle w)) (Num pi)) (Num 2)))"
    and "document_listeners (drag_rotate ev w) = document_listeners w"
    and "knobs (drag_rotate ev w) =
          (knobs w)(k := set_value (of_field (xknob_drag_previous_value (drag_rotate ev w)))
                           (knobs w k))"
    and "trace (drag_rotate ev w) = trace w
          @ (if js_ge (delta_angle (Num (get_mouse_angle ev)) (xknob_drag_previous_angle w))
                   (js_neg (Num pi))
                \<and> js_le (delta_angle (Num (get_mouse_angle ev)) (xknob_drag_previous_angle w))
                   (Num pi)
             then [] else [AssertionFailed])
          @ (if strict_ne (knob_value (knobs w k)) (knob_value (knobs (drag_rotate ev w) k))
             then [DispatchEvent k Input] else [])"
  using assms by (simp_all add: drag_rotate_def Let_def set_knob_def emit_def)


lemma drag_rotate_value_finite:
  assumes "xknob_being_dragged w = Some k"
  shows "Number_isFinite (knob_value (knobs (drag_rotate ev w) k))"
  by (simp add: drag_rotate_active(6) [OF assms] set_value_finite)


text \<open>
  Claim C3. While a knob is being dragged, a pointer move dispatches \<^verbatim>\<open>input\<close> on that
  knob exactly when the knob's stored value after the assignment differs from its value
  before the move, and dispatches nothing else. The value assigned is the accumulated
  proposed value, passed through the value transform; the other knobs are untouched.
\<close>

theorem input_iff_value_changed:
  assumes "xknob_being_dragged w = Some k"
  shows "notifications (trace (drag_rotate ev w)) =
           notifications (trace w)
           @ (if knob_value (knobs w k) \<noteq> knob_value (knobs (drag_rotate ev w) k)
              then [(k, Input)] else [])
       \<and> knobs (drag_rotate ev w) k =
           set_value (of_field (xknob_drag_previous_value (drag_rotate ev w))) (knobs w k)
       \<and> (\<forall>j. j \<noteq> k \<longrightarrow> knobs (drag_rotate ev w) j = knobs w j)"
proof -
  have fin: "knob_value (knobs (drag_rotate ev w) k) \<noteq> Some NaN"
    using drag_rotate_value_finite [OF assms] by (rule finite_not_NaN)
  have ne: "strict_ne (knob_value (knobs w k)) (knob_value (knobs (drag_rotate ev w) k))
      \<longleftrightarrow> knob_value (knobs w k) \<noteq> knob_value (knobs (drag_rotate ev w) k)"
    by (rule strict_ne_iff [OF fin])
  have tr: "notifications (trace (drag_rotate ev w)) =
           notifications (trace w)
           @ (if knob_value (knobs w k) \<noteq> knob_value (knobs (drag_rotate ev w) k)
              then [(k, Input)] else [])"
    unfolding drag_rotate_active(7) [OF assms] notifications_append ne by simp
  have kn: "knobs (drag_rotate ev w) =
          (knobs w)(k := set_value (of_field (xknob_drag_previous_value (drag_rotate ev w)))
                           (knobs w k))"
    by (rule drag_rotate_active(6) [OF assms])
  have k1: "knobs (drag_rotate ev w) k =
           set_value (of_field (xknob_drag_previous_value (drag_rotate ev w))) (knobs w k)"
    by (subst kn) simp
  have k2: "\<forall>j. j \<noteq> k \<longrightarrow> knobs (drag_rotate ev w) j = knobs w j"
    by (subst kn) simp
  show ?thesis using tr k1 k2 by blast
qed


lemma start_dragging_accepted:
  assumes "xknob_being_dragged (start_dragging ev w) = Some k"
  shows "xknob_drag_initial_value (start_dragging ev w) = knob_value (knobs w k)"
    and "xknob_drag_previous_value (start_dragging ev w) = knob_value (knobs w k)"
    and "xknob_drag_previous_angle (start_dragging ev w) = Some (Num (get_mouse_angle ev))"
    and "knobs (start_dragging ev w) = knobs w"
    and "trace (start_dragging ev w) = trace w @ [PreventDefault, StopPropagation]"
    and "document_listeners (start_dragging ev w)"
    and "ev_type ev \<noteq> Mousedown \<or> ev_button ev = 0"
    and "find_shadow_root (ev_currentTarget ev) = Some (Some k)"
  using assms
  by (auto simp add: start_dragging_def Let_def emit_def add_listeners_to_document_def
      remove_listeners_from_document_def split: if_splits option.splits)


lemma stop_dragging_active:
  assumes "xknob_being_dragged w = Some k"
  shows "xknob_being_dragged (stop_dragging ev w) = None"
    and "xknob_drag_initial_value (stop_dragging ev w) = xknob_drag_initial_value w"
    and "xknob_drag_previous_value (stop_dragging ev w) = xknob_drag_previous_value w"
    and "xknob_drag_previous_angle (stop_dragging ev w) = xknob_drag_previous_angle w"
    and "knobs (stop_dragging ev w) = knobs w"
    and "trace (stop_dragging ev w) = trace w
          @ (if strict_ne (xknob_drag_initial_value w) (knob_value (knobs w k))
             then [DispatchEvent k Change] else [])"
    and "document_listeners (stop_dragging ev w) =
          (document_listeners w \<and> listener_node (ev_target ev) \<noteq> Document_node)"
  using assms
  by (simp_all add: stop_dragging_def Let_def emit_def remove_listeners_from_document_def)


lemma moves_keep_session:
  assumes "xknob_being_dragged w = Some k" and "knob_value (knobs w k) \<noteq> Some NaN"
  shows "xknob_being_dragged (fold drag_rotate ms w) = Some k
    \<and> xknob_drag_initial_value (fold drag_rotate ms w) = xknob_drag_initial_value w
    \<and> knob_value (knobs (fold drag_rotate ms w) k) \<noteq> Some NaN
    \<and> filter (\<lambda>n. snd n = Change) (notifications (trace (fold drag_rotate ms w))) =
        filter (\<lambda>n. snd n = Change) (notifications (trace w))"
  using assms
proof (induction ms arbitrary: w)
  case Nil
  then show ?case by simp
next
  case (Cons m ms)
  have a: "xknob_being_dragged (drag_rotate m w) = Some k"
    by (rule drag_rotate_active(1) [OF Cons.prems(1)])
  have b: "knob_value (knobs (drag_rotate m w) k) \<noteq> Some NaN"
    using drag_rotate_value_finite [OF Cons.prems(1)] by (rule finite_not_NaN)
  have c: "filter (\<lambda>n. snd n = Change) (notifications (trace (drag_rotate m w))) =
        filter (\<lambda>n. snd n = Change) (notifications (trace w))"
    unfolding drag_rotate_active(7) [OF Cons.prems(1)] notifications_append by simp
  show ?case
    using Cons.IH [OF a b] c by (simp add: drag_rotate_active(2) [OF Cons.prems(1)])
qed


text \<open>
  Claim C2. A drag session: a press that starts a session on knob \<open>k\<close>, any moves, one
  release. The value captured at the press is the knob's value then. No \<^verbatim>\<open>change\<close>
  is dispatched by the press or by the moves. The release dispatches one \<^verbatim>\<open>change\<close>
  on \<open>k\<close> if the knob's value then differs from the captured one, and nothing
  otherwise. The knob's value at the press is a number, as every stored value is.
\<close>

theorem change_once_at_pointer_up:
  assumes "xknob_being_dragged (start_dragging down w) = Some k"
    and "knob_value (knobs w k) \<noteq> Some NaN"
  shows "(let w1 = start_dragging down w;
              w2 = fold drag_rotate moves w1;
              w3 = stop_dragging up w2
          in xknob_drag_initial_value w1 = knob_value (knobs w k)
           \<and> filter (\<lambda>n. snd n = Change) (notifications (trace w2)) =
               filter (\<lambda>n. snd n = Change) (notifications (trace w))
           \<and> notifications (trace w3) =
               notifications (trace w2)
               @ (if knob_value (knobs w2 k) \<noteq> xknob_drag_initial_value w1
                  then [(k, Change)] else []))"
proof -
  define w1 where "w1 = start_dragging down w"
  define w2 where "w2 = fold drag_rotate moves w1"
  have s: "xknob_being_dragged w1 = Some k" using assms(1) by (simp add: w1_def)
  have i: "xknob_drag_initial_value w1 = knob_value (knobs w k)"
    unfolding w1_def by (rule start_dragging_accepted(1) [OF assms(1)])
  have v: "knob_value (knobs w1 k) \<noteq> Some NaN"
    unfolding w1_def start_dragging_accepted(4) [OF assms(1)] by (rule assms(2))
  have t1: "notifications (trace w1) = notifications (trace w)"
    unfolding w1_def start_dragging_accepted(5) [OF assms(1)] notifications_append by simp
  note m = moves_keep_session [OF s v, of moves, folded w2_def]
  have i2: "xknob_drag_initial_value w2 \<noteq> Some NaN" using m i assms(2) by simp
  have up: "notifications (trace (stop_dragging up w2)) =
      notifications (trace w2)
      @ (if knob_value (knobs w2 k) \<noteq> xknob_drag_initial_value w1 then [(k, Change)] else [])"
    using m strict_ne_iff' [OF i2, of "knob_value (knobs w2 k)"]
    by (auto simp add: stop_dragging_active(6) [of w2 k up] notifications_append)
  show ?thesis
    using i m t1 up by (simp add: Let_def w1_def [symmetric] w2_def [symmetric])
qed



section \<open>Angles\<close>

lemma atan2_bounds: "- pi < atan2 y x \<and> atan2 y x \<le> pi"
proof -
  have l: "- (pi / 2) < arctan (y / x)" by (rule arctan_lbound)
  have u: "arctan (y / x) < pi / 2" by (rule arctan_ubound)
  have p: "0 < pi" by (rule pi_gt_zero)
  consider "0 < x" | "x < 0" "0 \<le> y" | "x < 0" "y < 0" | "x = 0" by linarith
  then show ?thesis
  proof cases
    case 1
    then have e: "atan2 y x = arctan (y / x)" by (simp add: atan2_def)
    show ?thesis unfolding e using l u p by linarith
  next
    case 2
    then have "y / x \<le> 0" by (simp add: divide_nonneg_neg)
    then have n: "arctan (y / x) \<le> 0" by simp
    have e: "atan2 y x = arctan (y / x) + pi" using 2 by (simp add: atan2_def)
    show ?thesis unfolding e using l n p by linarith
  next
    case 3
    then have "0 < y / x" by (simp add: divide_neg_neg)
    then have n: "0 < arctan (y / x)" by simp
    have e: "atan2 y x = arctan (y / x) - pi" using 3 by (simp add: atan2_def)
    show ?thesis unfolding e using u n p by linarith
  next
    case 4
    then have "atan2 y x = pi / 2 \<or> atan2 y x = - (pi / 2) \<or> atan2 y x = 0"
      by (simp add: atan2_def)
    then show ?thesis using p by linarith
  qed
qed

lemma get_mouse_angle_bounds:
  "- (pi / 2) < get_mouse_angle ev \<and> get_mouse_angle ev \<le> 3 * pi / 2"
proof -
  obtain y x where "get_mouse_angle ev = atan2 y x + pi / 2"
    by (simp add: get_mouse_angle_def Let_def)
  then show ?thesis using atan2_bounds [of y x] by simp
qed

lemma delta_angle_bounds:
  assumes "- (pi / 2) \<le> a" "a \<le> 3 * pi / 2" "- (pi / 2) \<le> b" "b \<le> 3 * pi / 2"
  shows "\<exists>d. delta_angle (Num a) (Some (Num b)) = Num d \<and> - pi \<le> d \<and> d \<le> pi"
proof -
  have p: "0 < pi" by (rule pi_gt_zero)
  show ?thesis
  proof (cases "a - b < 0")
    case True
    show ?thesis
    proof (cases "a - b + pi * 2 > pi")
      case True
      with \<open>a - b < 0\<close> show ?thesis
        using assms p by (simp add: delta_angle_def Let_def js_sub_def js_gt_def)
    next
      case False
      with \<open>a - b < 0\<close> show ?thesis
        using assms p by (simp add: delta_angle_def Let_def js_sub_def js_gt_def)
    qed
  next
    case False
    show ?thesis
    proof (cases "a - b > pi")
      case True
      with \<open>\<not> a - b < 0\<close> show ?thesis
        using assms p by (simp add: delta_angle_def Let_def js_sub_def js_gt_def)
    next
      case False
      with \<open>\<not> a - b < 0\<close> show ?thesis
        using assms p by (simp add: delta_angle_def Let_def js_sub_def js_gt_def)
    qed
  qed
qed

lemma assertion_holds:
  assumes "delta_angle a b = Num d" "- pi \<le> d" "d \<le> pi"
  shows "js_ge (delta_angle a b) (js_neg (Num pi)) \<and> js_le (delta_angle a b) (Num pi)"
  using assms by (simp add: js_ge_def js_le_def)

section \<open>The example page\<close>

lemma angle_press_up: "get_mouse_angle press_up = 0"
  by (simp add: get_mouse_angle_def press_up_def mouse_event_def get_center_position_def atan2_def)

lemma angle_move_right: "get_mouse_angle move_right = pi / 2"
  by (simp add: get_mouse_angle_def move_right_def mouse_event_def get_center_position_def atan2_def)

lemma angle_move_up: "get_mouse_angle move_up = 0"
  by (simp add: get_mouse_angle_def move_up_def mouse_event_def get_center_position_def atan2_def)

lemma created_fields:
  "knob_divisions created = Some (Num 0)" "knob_min created = None"
  "knob_max created = None" "knob_value created = Some (Num 0)"
  by (simp_all add: created_def)

lemma press_up_fields:
  "ev_type press_up = Mousedown" "ev_button press_up = 0"
  "ev_target press_up = Other_node"
  "find_shadow_root (ev_currentTarget press_up) = Some (Some 0)"
  by (simp_all add: press_up_def mouse_event_def)

lemma pressed_eq:
  "pressed = \<lparr>knobs = (\<lambda>_. created), xknob_being_dragged = Some 0,
     xknob_drag_previous_angle = Some (Num 0), xknob_drag_previous_value = Some (Num 0),
     xknob_drag_initial_value = Some (Num 0), document_listeners = True,
     trace = [PreventDefault, StopPropagation]\<rparr>"
  by (simp add: pressed_def start_dragging_def angle_press_up initial_world_def Let_def
      remove_listeners_from_document_def add_listeners_to_document_def emit_def
      press_up_fields created_fields)

lemma delta_quarter: "delta_angle (Num (pi / 2)) (Some (Num 0)) = Num (pi / 2)"
  by (simp add: delta_angle_def js_sub_def js_gt_def Let_def)

lemma delta_back: "delta_angle (Num 0) (Some (Num (pi / 2))) = Num (- (pi / 2))"
  by (simp add: delta_angle_def js_sub_def js_gt_def Let_def)

lemma created_set_quarter:
  "set_value (JSNumber (Num (1 / 4))) created = created\<lparr>knob_value := Some (Num (1 / 4))\<rparr>"
  by (simp add: set_value_def float_or_default_def update_value_def created_def js_ge_def)

lemma turned_eq:
  "turned = \<lparr>knobs = (\<lambda>_. created)(0 := created\<lparr>knob_value := Some (Num (1 / 4))\<rparr>),
     xknob_being_dragged = Some 0,
     xknob_drag_previous_angle = Some (Num (pi / 2)),
     xknob_drag_previous_value = Some (Num (1 / 4)),
     xknob_drag_initial_value = Some (Num 0), document_listeners = True,
     trace = [PreventDefault, StopPropagation, DispatchEvent 0 Input]\<rparr>"
  unfolding turned_def pressed_eq
  by (simp add: drag_rotate_def Let_def angle_move_right delta_quarter js_ge_def js_le_def
      set_knob_def emit_def created_set_quarter strict_ne_def created_fields)


section \<open>Presses and releases\<close>

lemma stray_event:
  assumes "xknob_being_dragged w = None"
  shows "drag_rotate ev w = remove_listeners_from_document (ev_target ev) w"
    and "stop_dragging ev w = remove_listeners_from_document (ev_target ev) w"
  using assms by (simp_all add: drag_rotate_def stop_dragging_def)

lemma remove_listeners_fields:
  "knobs (remove_listeners_from_document n w) = knobs w"
  "trace (remove_listeners_from_document n w) = trace w"
  "xknob_being_dragged (remove_listeners_from_document n w) = xknob_being_dragged w"
  "xknob_drag_previous_angle (remove_listeners_from_document n w) = xknob_drag_previous_angle w"
  "xknob_drag_previous_value (remove_listeners_from_document n w) = xknob_drag_previous_value w"
  "xknob_drag_initial_value (remove_listeners_from_document n w) = xknob_drag_initial_value w"
  "document_listeners (remove_listeners_from_document n w) =
     (document_listeners w \<and> listener_node n \<noteq> Document_node)"
  by (simp_all add: remove_listeners_from_document_def)

lemma remove_listeners_eq:
  "remove_listeners_from_document n w =
     w\<lparr>document_listeners := document_listeners w \<and> listener_node n \<noteq> Document_node\<rparr>"
  by (simp add: remove_listeners_from_document_def)

lemma remove_listeners_twice:
  "remove_listeners_from_document n (remove_listeners_from_document n w) =
     remove_listeners_from_document n w"
  by (simp add: remove_listeners_from_document_def)

text \<open>
  Claim C9. A move or a release that arrives while no knob is being dragged changes
  nothing but the document's listeners: no knob changes, nothing is dispatched, the
  session variables stay as they are. The listeners are taken off the document when
  the event's target is an HTML element or the document itself, and never added.
  Handling the event a second time changes nothing more.
\<close>

theorem stray_move_or_release_only_drops_listeners:
  assumes "xknob_being_dragged w = None"
  shows "drag_rotate ev w =
           w\<lparr>document_listeners :=
               document_listeners w \<and> listener_node (ev_target ev) \<noteq> Document_node\<rparr>
       \<and> stop_dragging ev w =
           w\<lparr>document_listeners :=
               document_listeners w \<and> listener_node (ev_target ev) \<noteq> Document_node\<rparr>
       \<and> knobs (drag_rotate ev w) = knobs w \<and> knobs (stop_dragging ev w) = knobs w
       \<and> trace (drag_rotate ev w) = trace w \<and> trace (stop_dragging ev w) = trace w
       \<and> drag_rotate ev (drag_rotate ev w) = drag_rotate ev w
       \<and> stop_dragging ev (stop_dragging ev w) = stop_dragging ev w"
proof -
  have n: "xknob_being_dragged (remove_listeners_from_document (ev_target ev) w) = None"
    using assms by (simp add: remove_listeners_fields)
  have d: "drag_rotate ev (drag_rotate ev w) = drag_rotate ev w"
    unfolding stray_event(1) [OF assms] stray_event(1) [OF n] by (rule remove_listeners_twice)
  have s: "stop_dragging ev (stop_dragging ev w) = stop_dragging ev w"
    unfolding stray_event(2) [OF assms] stray_event(2) [OF n] by (rule remove_listeners_twice)
  show ?thesis
    using d s
    by (simp add: stray_event [OF assms] remove_listeners_fields remove_listeners_eq [symmetric])
qed

lemma move_right_target: "ev_target move_right = HTMLElement_node"
  by (simp add: move_right_def mouse_event_def)

lemma release_target: "ev_target release = HTMLElement_node"
  by (simp add: release_def mouse_event_def)

lemma pressed_listening: "document_listeners pressed" "xknob_being_dragged pressed = Some 0"
  by (simp_all add: pressed_eq)

lemma secondary_press_during_drag:
  "xknob_being_dragged (start_dragging press_secondary pressed) = None"
  "document_listeners (start_dragging press_secondary pressed)"
  by (simp_all add: start_dragging_def Let_def remove_listeners_fields pressed_listening)
    (simp_all add: press_secondary_def mouse_event_def)

text \<open>
  On the fresh page a move and a release change nothing at all. After a press of the
  secondary button during a drag, which ends the session and leaves the listeners on
  the document, a move takes the listeners off and changes nothing else.
\<close>

theorem stray_move_or_release_witness:
  "xknob_being_dragged initial_world = None
   \<and> drag_rotate move_right initial_world = initial_world
   \<and> stop_dragging release initial_world = initial_world
   \<and> xknob_being_dragged (start_dragging press_secondary pressed) = None
   \<and> document_listeners (start_dragging press_secondary pressed)
   \<and> drag_rotate move_right (start_dragging press_secondary pressed) =
       (start_dragging press_secondary pressed)\<lparr>document_listeners := False\<rparr>"
proof -
  have a: "xknob_being_dragged initial_world = None
     \<and> drag_rotate move_right initial_world = initial_world
     \<and> stop_dragging release initial_world = initial_world"
    using stray_move_or_release_only_drops_listeners [of initial_world move_right]
      stray_move_or_release_only_drops_listeners [of initial_world release]
    by (simp add: initial_world_def move_right_target release_target)
  have b: "drag_rotate move_right (start_dragging press_secondary pressed) =
       (start_dragging press_secondary pressed)\<lparr>document_listeners := False\<rparr>"
    using stray_move_or_release_only_drops_listeners
      [OF secondary_press_during_drag(1), of move_right]
    by (simp add: move_right_target)
  show ?thesis using a b secondary_press_during_drag by simp
qed

text \<open>
  Claim C8, amended. A release that ends a session sets \<^verbatim>\<open>xknob_being_dragged\<close> to
  \<^verbatim>\<open>null\<close> and takes the listeners off the document (when the event's target is an
  HTML element or the document). The previous angle, the proposed value and the initial
  value keep what the session left in them; the next press overwrites them.
\<close>

theorem release_keeps_three_session_fields:
  assumes "xknob_being_dragged w = Some k"
  shows "xknob_being_dragged (stop_dragging ev w) = None
       \<and> xknob_drag_previous_angle (stop_dragging ev w) = xknob_drag_previous_angle w
       \<and> xknob_drag_previous_value (stop_dragging ev w) = xknob_drag_previous_value w
       \<and> xknob_drag_initial_value (stop_dragging ev w) = xknob_drag_initial_value w
       \<and> (listener_node (ev_target ev) = Document_node
            \<longrightarrow> \<not> document_listeners (stop_dragging ev w))"
  by (simp add: stop_dragging_active [OF assms])

lemma turned_dragged: "xknob_being_dragged turned = Some 0"
  by (simp add: turned_eq)

text \<open>
  The claim as stated fails: after the press, the quarter turn and the release, the
  three variables still hold the angle \<open>\<pi>/2\<close>, the proposed value \<open>1/4\<close> and the initial
  value \<open>0\<close>.
\<close>

theorem release_clears_all_fields_counterexample:
  "xknob_being_dragged turned = Some 0
   \<and> xknob_drag_previous_angle (stop_dragging release turned) = Some (Num (pi / 2))
   \<and> xknob_drag_previous_value (stop_dragging release turned) = Some (Num (1 / 4))
   \<and> xknob_drag_initial_value (stop_dragging release turned) = Some (Num 0)"
  by (simp add: stop_dragging_active [OF turned_dragged] turned_dragged) (simp add: turned_eq)

text \<open>The release after the quarter turn ends the session and drops the listeners.\<close>

theorem release_keeps_three_session_fields_witness:
  "xknob_being_dragged turned = Some 0
   \<and> xknob_being_dragged (stop_dragging release turned) = None
   \<and> xknob_drag_previous_angle (stop_dragging release turned) = xknob_drag_previous_angle turned
   \<and> \<not> document_listeners (stop_dragging release turned)"
  using release_keeps_three_session_fields [OF turned_dragged, of release]
  by (simp add: turned_dragged release_target)

lemma start_dragging_rejected:
  assumes "ev_type ev = Mousedown" and "ev_button ev \<noteq> 0"
  shows "start_dragging ev w =
           (remove_listeners_from_document (ev_target ev) w)\<lparr>xknob_being_dragged := None\<rparr>"
  using assms by (simp add: start_dragging_def Let_def)

text \<open>
  Claim C7, amended. A mouse press with a button other than the primary one starts no
  session: the handler takes the listeners off, sets \<^verbatim>\<open>xknob_being_dragged\<close> to
  \<^verbatim>\<open>null\<close> and returns. It returns before \<^verbatim>\<open>preventDefault\<close> and
  \<^verbatim>\<open>stopPropagation\<close>, so the event's default action is not suppressed, and no knob
  changes. A press starts a session only if it is not a mouse press with such a button.
\<close>

theorem secondary_button_press_is_ignored:
  assumes "ev_type ev = Mousedown" and "ev_button ev \<noteq> 0"
  shows "start_dragging ev w =
           (remove_listeners_from_document (ev_target ev) w)\<lparr>xknob_being_dragged := None\<rparr>
       \<and> xknob_being_dragged (start_dragging ev w) = None
       \<and> trace (start_dragging ev w) = trace w
       \<and> knobs (start_dragging ev w) = knobs w
       \<and> (\<forall>ev' w' k. xknob_being_dragged (start_dragging ev' w') = Some k
             \<longrightarrow> ev_type ev' \<noteq> Mousedown \<or> ev_button ev' = 0)"
proof -
  have "\<forall>ev' w' k. xknob_being_dragged (start_dragging ev' w') = Some k
             \<longrightarrow> ev_type ev' \<noteq> Mousedown \<or> ev_button ev' = 0"
    using start_dragging_accepted(7) by blast
  then show ?thesis
    by (simp add: start_dragging_rejected [OF assms] remove_listeners_fields)
qed

lemma press_secondary_fields:
  "ev_type press_secondary = Mousedown" "ev_button press_secondary = 2"
  "ev_target press_secondary = Other_node"
  by (simp_all add: press_secondary_def mouse_event_def)

text \<open>
  The claim as stated fails: a press of the secondary button on the fresh page leaves no
  \<^verbatim>\<open>preventDefault\<close> among the effects.
\<close>

theorem secondary_press_default_suppressed_counterexample:
  "ev_type press_secondary = Mousedown \<and> ev_button press_secondary \<noteq> 0
   \<and> PreventDefault \<notin> set (trace (start_dragging press_secondary initial_world))"
  by (simp add: press_secondary_fields start_dragging_def Let_def remove_listeners_fields)
    (simp add: initial_world_def)

text \<open>A press of the secondary button during a drag ends it and adds no effect.\<close>

theorem secondary_button_press_is_ignored_witness:
  "ev_type press_secondary = Mousedown \<and> ev_button press_secondary \<noteq> 0
   \<and> xknob_being_dragged (start_dragging press_secondary pressed) = None
   \<and> trace (start_dragging press_secondary pressed) = trace pressed"
  using secondary_button_press_is_ignored [of press_secondary pressed]
  by (simp add: press_secondary_fields remove_listeners_fields)


section \<open>Steps of the page and the assertion on the turn\<close>

lemma set_knob_fields:
  "knobs (set_knob xk f w) = (knobs w)(xk := f (knobs w xk))"
  "trace (set_knob xk f w) = trace w"
  "xknob_being_dragged (set_knob xk f w) = xknob_being_dragged w"
  "xknob_drag_previous_angle (set_knob xk f w) = xknob_drag_previous_angle w"
  "xknob_drag_previous_value (set_knob xk f w) = xknob_drag_previous_value w"
  "xknob_drag_initial_value (set_knob xk f w) = xknob_drag_initial_value w"
  "document_listeners (set_knob xk f w) = document_listeners w"
  by (simp_all add: set_knob_def)

lemma start_dragging_fields:
  "knobs (start_dragging ev w) = knobs w"
  "set (trace (start_dragging ev w)) \<subseteq> set (trace w) \<union> {PreventDefault, StopPropagation}"
  by (auto simp add: start_dragging_def Let_def emit_def add_listeners_to_document_def
      remove_listeners_from_document_def split: if_splits option.splits)

lemma step_keeps_angles:
  assumes "AssertionFailed \<notin> set (trace w)"
    and "xknob_being_dragged w \<noteq> None \<longrightarrow>
          (\<exists>a. xknob_drag_previous_angle w = Some (Num a) \<and> - (pi / 2) \<le> a \<and> a \<le> 3 * pi / 2)"
  shows "AssertionFailed \<notin> set (trace (step act w))
    \<and> (xknob_being_dragged (step act w) \<noteq> None \<longrightarrow>
          (\<exists>a. xknob_drag_previous_angle (step act w) = Some (Num a)
               \<and> - (pi / 2) \<le> a \<and> a \<le> 3 * pi / 2))"
proof (cases act)
  case (Set_divisions xk x)
  then show ?thesis using assms by (simp add: set_knob_fields)
next
  case (Set_min xk x)
  then show ?thesis using assms by (simp add: set_knob_fields)
next
  case (Set_max xk x)
  then show ?thesis using assms by (simp add: set_knob_fields)
next
  case (Set_value xk x)
  then show ?thesis using assms by (simp add: set_knob_fields)
next
  case (Pointer_down ev)
  have t: "AssertionFailed \<notin> set (trace (start_dragging ev w))"
    using start_dragging_fields(2) [of ev w] assms(1) by auto
  have "xknob_being_dragged (start_dragging ev w) \<noteq> None \<longrightarrow>
          (\<exists>a. xknob_drag_previous_angle (start_dragging ev w) = Some (Num a)
               \<and> - (pi / 2) \<le> a \<and> a \<le> 3 * pi / 2)"
  proof
    assume "xknob_being_dragged (start_dragging ev w) \<noteq> None"
    then obtain k where k: "xknob_being_dragged (start_dragging ev w) = Some k" by auto
    show "\<exists>a. xknob_drag_previous_angle (start_dragging ev w) = Some (Num a)
               \<and> - (pi / 2) \<le> a \<and> a \<le> 3 * pi / 2"
      using start_dragging_accepted(3) [OF k] get_mouse_angle_bounds [of ev] by auto
  qed
  then show ?thesis using t Pointer_down by simp
next
  case (Pointer_move ev)
  show ?thesis
  proof (cases "xknob_being_dragged w")
    case None
    then show ?thesis
      using assms Pointer_move by (simp add: stray_event(1) remove_listeners_fields)
  next
    case (Some k)
    then obtain a where a: "xknob_drag_previous_angle w = Some (Num a)"
        "- (pi / 2) \<le> a" "a \<le> 3 * pi / 2"
      using assms(2) by auto
    have n: "- (pi / 2) \<le> get_mouse_angle ev" "get_mouse_angle ev \<le> 3 * pi / 2"
      using get_mouse_angle_bounds [of ev] by simp_all
    obtain d where d: "delta_angle (Num (get_mouse_angle ev)) (Some (Num a)) = Num d"
        "- pi \<le> d" "d \<le> pi"
      using delta_angle_bounds [OF n a(2,3)] by auto
    have ok: "js_ge (delta_angle (Num (get_mouse_angle ev)) (xknob_drag_previous_angle w))
                (js_neg (Num pi))
            \<and> js_le (delta_angle (Num (get_mouse_angle ev)) (xknob_drag_previous_angle w))
                (Num pi)"
      unfolding a(1) by (rule assertion_holds [OF d])
    have t: "AssertionFailed \<notin> set (trace (drag_rotate ev w))"
      using assms(1) ok by (simp add: drag_rotate_active(7) [OF Some])
    show ?thesis
      using t n Pointer_move by (simp add: drag_rotate_active(1,3) [OF Some])
  qed
next
  case (Pointer_up ev)
  show ?thesis
  proof (cases "xknob_being_dragged w")
    case None
    then show ?thesis
      using assms Pointer_up by (simp add: stray_event(2) remove_listeners_fields)
  next
    case (Some k)
    then show ?thesis
      using assms(1) Pointer_up by (simp add: stop_dragging_active(1,6) [OF Some])
  qed
qed

lemma run_keeps_angles:
  assumes "AssertionFailed \<notin> set (trace w)"
    and "xknob_being_dragged w \<noteq> None \<longrightarrow>
          (\<exists>a. xknob_drag_previous_angle w = Some (Num a) \<and> - (pi / 2) \<le> a \<and> a \<le> 3 * pi / 2)"
  shows "AssertionFailed \<notin> set (trace (run acts w))"
  using assms
proof (induction acts arbitrary: w)
  case Nil
  then show ?case by (simp add: run_def)
next
  case (Cons act acts)
  have "AssertionFailed \<notin> set (trace (run acts (step act w)))"
    using step_keeps_angles [OF Cons.prems, of act] Cons.IH [of "step act w"] by blast
  then show ?case by (simp add: run_def)
qed

lemma quarter_turn:
  assumes "xknob_being_dragged w = Some k"
    and "xknob_drag_previous_angle w = Some (Num a)"
    and "get_mouse_angle ev - a = pi / 2"
  shows "xknob_drag_previous_value (drag_rotate ev w) =
           Some (js_add (to_number (xknob_drag_previous_value w)) (Num (1 / 4)))"
proof -
  have s: "js_sub (Num (get_mouse_angle ev)) (Num a) = Num (get_mouse_angle ev - a)"
    by (simp add: js_sub_def)
  have d: "delta_angle (Num (get_mouse_angle ev)) (Some (Num a)) = Num (pi / 2)"
    unfolding delta_angle_def Let_def to_number.simps s assms(3)
    by (simp add: js_gt_def)
  show ?thesis
    by (simp add: drag_rotate_active(4) [OF assms(1)] assms(2) d)
qed

text \<open>
  Claim C4. For any two pointer events the turn computed from their angles (the new one
  minus the old one, plus \<open>2\<pi>\<close> if negative, then minus \<open>2\<pi>\<close> if above \<open>\<pi>\<close>) is a finite
  number in \<open>[-\<pi>, \<pi>]\<close>. In every run of the page from its initial state the assertion
  in \<^verbatim>\<open>drag_rotate\<close> holds each time it is evaluated. A move whose angle is \<open>\<pi>/2\<close> more
  than the previous angle adds exactly \<open>1/4\<close> to the proposed value.
\<close>

theorem delta_angle_within_half_turn:
  "(\<exists>d. delta_angle (Num (get_mouse_angle new_ev)) (Some (Num (get_mouse_angle old_ev))) = Num d
        \<and> - pi \<le> d \<and> d \<le> pi)
   \<and> AssertionFailed \<notin> set (trace (run acts initial_world))
   \<and> (xknob_being_dragged w = Some k \<and> xknob_drag_previous_angle w = Some (Num a)
        \<and> get_mouse_angle ev - a = pi / 2
      \<longrightarrow> xknob_drag_previous_value (drag_rotate ev w) =
            Some (js_add (to_number (xknob_drag_previous_value w)) (Num (1 / 4))))"
proof -
  have n: "- (pi / 2) \<le> get_mouse_angle new_ev" "get_mouse_angle new_ev \<le> 3 * pi / 2"
    using get_mouse_angle_bounds [of new_ev] by simp_all
  have o: "- (pi / 2) \<le> get_mouse_angle old_ev" "get_mouse_angle old_ev \<le> 3 * pi / 2"
    using get_mouse_angle_bounds [of old_ev] by simp_all
  have 1: "\<exists>d. delta_angle (Num (get_mouse_angle new_ev)) (Some (Num (get_mouse_angle old_ev)))
              = Num d \<and> - pi \<le> d \<and> d \<le> pi"
    by (rule delta_angle_bounds [OF n o])
  have 2: "AssertionFailed \<notin> set (trace (run acts initial_world))"
    by (rule run_keeps_angles) (simp_all add: initial_world_def)
  show ?thesis using 1 2 quarter_turn [of w k a ev] by blast
qed

text \<open>The quarter turn of the example page moves the proposed value from \<open>0\<close> to \<open>1/4\<close>.\<close>

theorem delta_angle_within_half_turn_witness:
  "xknob_being_dragged pressed = Some 0
   \<and> xknob_drag_previous_angle pressed = Some (Num 0)
   \<and> get_mouse_angle move_right - 0 = pi / 2
   \<and> xknob_drag_previous_value (drag_rotate move_right pressed) = Some (Num (1 / 4))"
  using delta_angle_within_half_turn [of move_right press_up "[]" pressed 0 0 move_right]
  by (simp add: angle_move_right) (simp add: pressed_eq)


section \<open>What the fields hold in every run\<close>

lemma is_integer_of_int: "is_integer (Some (Num (of_int n)))"
  by simp

lemma number_of_real_cases:
  "number_of_real r = Num r \<or> number_of_real r = PosInfinity \<or> number_of_real r = NegInfinity"
  by (simp add: number_of_real_def signed_infinity_def)

lemma parseInt_string_integer:
  "parseInt_string s = NaN \<or> parseInt_string s = PosInfinity
   \<or> parseInt_string s = NegInfinity \<or> (\<exists>n. parseInt_string s = Num (of_int n))"
proof -
  obtain negative r where sr: "split_sign (dropWhile is_whitespace s) = (negative, r)"
    by (cases "split_sign (dropWhile is_whitespace s)")
  define m where "m = (if negative then - int (digits_value (takeWhile is_digit r))
                       else int (digits_value (takeWhile is_digit r)))"
  have e: "parseInt_string s =
      (if takeWhile is_digit r = [] then NaN else number_of_real (of_int m))"
    by (simp add: parseInt_string_def sr Let_def m_def)
  show ?thesis
    using number_of_real_cases [of "of_int m"] unfolding e by auto
qed

lemma parseInt_number_integer:
  "parseInt_number x = NaN \<or> (\<exists>n. parseInt_number x = Num (of_int n))"
  by (cases x) (simp_all add: Let_def)

lemma parseInt_integer:
  "parseInt x = NaN \<or> parseInt x = PosInfinity \<or> parseInt x = NegInfinity
   \<or> (\<exists>n. parseInt x = Num (of_int n))"
proof (cases x)
  case JSNull
  then show ?thesis by simp
next
  case (JSNumber y)
  then show ?thesis using parseInt_number_integer [of y] by auto
next
  case (JSString s)
  then show ?thesis using parseInt_string_integer [of s] by simp
qed

lemma int_or_default_integer: "integer_or_infinity (int_or_default x (Some (Num 0)))"
  using parseInt_integer [of x] is_integer_of_int [of 0]
  by (auto simp add: int_or_default_def Let_def integer_or_infinity_def)

lemma setters_divisions:
  "knob_divisions (set_divisions x k) = int_or_default x (Some (Num 0))"
  "knob_divisions (set_min x k) = knob_divisions k"
  "knob_divisions (set_max x k) = knob_divisions k"
  "knob_divisions (set_value x k) = knob_divisions k"
  by (simp_all add: set_divisions_def set_min_def set_max_def set_value_def update_value_fields)

lemma setters_value_finite:
  "Number_isFinite (knob_value (set_divisions x k))"
  "Number_isFinite (knob_value (set_min x k))"
  "Number_isFinite (knob_value (set_max x k))"
  by (simp_all add: set_divisions_def set_min_def set_max_def update_value_fields apply_finite)

lemma step_keeps_integer_divisions:
  assumes "\<forall>xk. integer_or_infinity (knob_divisions (knobs w xk))"
  shows "\<forall>xk. integer_or_infinity (knob_divisions (knobs (step act w) xk))"
proof (cases act)
  case (Set_divisions k x)
  then show ?thesis using assms by (simp add: set_knob_fields setters_divisions int_or_default_integer)
next
  case (Set_min k x)
  then show ?thesis using assms by (simp add: set_knob_fields setters_divisions)
next
  case (Set_max k x)
  then show ?thesis using assms by (simp add: set_knob_fields setters_divisions)
next
  case (Set_value k x)
  then show ?thesis using assms by (simp add: set_knob_fields setters_divisions)
next
  case (Pointer_down ev)
  then show ?thesis using assms by (simp add: start_dragging_fields(1))
next
  case (Pointer_move ev)
  show ?thesis
  proof (cases "xknob_being_dragged w")
    case None
    then show ?thesis using assms Pointer_move by (simp add: stray_event(1) remove_listeners_fields)
  next
    case (Some k)
    then show ?thesis
      using assms Pointer_move by (simp add: drag_rotate_active(6) [OF Some] setters_divisions)
  qed
next
  case (Pointer_up ev)
  show ?thesis
  proof (cases "xknob_being_dragged w")
    case None
    then show ?thesis using assms Pointer_up by (simp add: stray_event(2) remove_listeners_fields)
  next
    case (Some k)
    then show ?thesis using assms Pointer_up by (simp add: stop_dragging_active(5) [OF Some])
  qed
qed

lemma run_keeps_integer_divisions:
  assumes "\<forall>xk. integer_or_infinity (knob_divisions (knobs w xk))"
  shows "\<forall>xk. integer_or_infinity (knob_divisions (knobs (run acts w) xk))"
  using assms
proof (induction acts arbitrary: w)
  case Nil
  then show ?case by (simp add: run_def)
next
  case (Cons act acts)
  have "\<forall>xk. integer_or_infinity (knob_divisions (knobs (run acts (step act w)) xk))"
    by (rule Cons.IH [OF step_keeps_integer_divisions [OF Cons.prems]])
  then show ?case by (simp add: run_def)
qed

lemma step_keeps_values_finite:
  assumes "\<forall>xk. Number_isFinite (knob_value (knobs w xk))"
  shows "\<forall>xk. Number_isFinite (knob_value (knobs (step act w) xk))"
proof (cases act)
  case (Set_divisions k x)
  then show ?thesis using assms by (simp add: set_knob_fields setters_value_finite)
next
  case (Set_min k x)
  then show ?thesis using assms by (simp add: set_knob_fields setters_value_finite)
next
  case (Set_max k x)
  then show ?thesis using assms by (simp add: set_knob_fields setters_value_finite)
next
  case (Set_value k x)
  then show ?thesis using assms by (simp add: set_knob_fields set_value_finite)
next
  case (Pointer_down ev)
  then show ?thesis using assms by (simp add: start_dragging_fields(1))
next
  case (Pointer_move ev)
  show ?thesis
  proof (cases "xknob_being_dragged w")
    case None
    then show ?thesis using assms Pointer_move by (simp add: stray_event(1) remove_listeners_fields)
  next
    case (Some k)
    then show ?thesis
      using assms Pointer_move by (simp add: drag_rotate_active(6) [OF Some] set_value_finite)
  qed
next
  case (Pointer_up ev)
  show ?thesis
  proof (cases "xknob_being_dragged w")
    case None
    then show ?thesis using assms Pointer_up by (simp add: stray_event(2) remove_listeners_fields)
  next
    case (Some k)
    then show ?thesis using assms Pointer_up by (simp add: stop_dragging_active(5) [OF Some])
  qed
qed

text \<open>Every stored value of every run is a number, as claim C2 supposes of the press.\<close>

lemma reachable_values_finite:
  "Number_isFinite (knob_value (knobs (run acts initial_world) xk))"
proof -
  have "(\<forall>xk. Number_isFinite (knob_value (knobs w xk)))
      \<Longrightarrow> (\<forall>xk. Number_isFinite (knob_value (knobs (run acts w) xk)))" for w
  proof (induction acts arbitrary: w)
    case Nil
    then show ?case by (simp add: run_def)
  next
    case (Cons act acts)
    have "\<forall>xk. Number_isFinite (knob_value (knobs (run acts (step act w)) xk))"
      by (rule Cons.IH [OF step_keeps_values_finite [OF Cons.prems]])
    then show ?case by (simp add: run_def)
  qed
  then show ?thesis by (simp add: initial_world_def created_fields)
qed

text \<open>
  Claim C6, amended. In every run of the page from its initial state, the
  \<^verbatim>\<open>_divisions\<close> field of every knob is a number that is an integer, of either sign,
  or an infinity, never NaN and never \<^verbatim>\<open>null\<close>; and so is what the
  \<^verbatim>\<open>divisions\<close> setter stores for any argument: what \<^verbatim>\<open>parseInt\<close> reads, or \<open>0\<close>
  when it reads no number. A value that is below \<open>2\<close> or not finite switches
  quantization off.
\<close>

theorem divisions_always_integer_or_infinity:
  "(is_integer (knob_divisions (knobs (run acts initial_world) xk))
      \<or> knob_divisions (knobs (run acts initial_world) xk) = Some PosInfinity
      \<or> knob_divisions (knobs (run acts initial_world) xk) = Some NegInfinity)
   \<and> (is_integer (knob_divisions (set_divisions x k))
      \<or> knob_divisions (set_divisions x k) = Some PosInfinity
      \<or> knob_divisions (set_divisions x k) = Some NegInfinity)"
proof -
  have "\<forall>xk. integer_or_infinity (knob_divisions (knobs (run acts initial_world) xk))"
    by (rule run_keeps_integer_divisions)
      (simp add: initial_world_def created_fields integer_or_infinity_def)
  then have 1: "integer_or_infinity (knob_divisions (knobs (run acts initial_world) xk))"
    by simp
  have 2: "integer_or_infinity (knob_divisions (set_divisions x k))"
    by (simp add: setters_divisions int_or_default_integer)
  show ?thesis using 1 2 unfolding integer_or_infinity_def by simp
qed

lemma number_of_real_small: "\<bar>r\<bar> \<le> 5 \<Longrightarrow> number_of_real r = Num r"
  by (simp add: number_of_real_def)

lemma parseInt_minus_five: "parseInt_string ''-5'' = Num (- 5)"
  by (simp add: parseInt_string_def is_whitespace_def is_digit_def digits_value_def
      digit_value_def number_of_real_small)

lemma zeros_value:
  "foldl (\<lambda>n c. 10 * n + digit_value c) a (replicate k (CHR ''0'')) = a * 10 ^ k"
  by (induction k arbitrary: a) (simp_all add: digit_value_def)

lemma digit_value_one: "digit_value (CHR ''1'') = 1"
  by (simp add: digit_value_def)

lemma huge_numeral_digits:
  "dropWhile is_whitespace huge_numeral = huge_numeral"
  "split_sign huge_numeral = (False, huge_numeral)"
  "takeWhile is_digit huge_numeral = huge_numeral"
  "huge_numeral \<noteq> []"
  "digits_value huge_numeral = 10 ^ 309"
  by (simp_all add: huge_numeral_def is_whitespace_def is_digit_def takeWhile_replicate
      digits_value_def zeros_value digit_value_one)

lemma beyond_doubles: "(2::real) ^ 1024 - 2 ^ 970 \<le> 10 ^ 309"
  by simp

lemma parseInt_huge_numeral: "parseInt_string huge_numeral = PosInfinity"
  using beyond_doubles
  by (simp add: parseInt_string_def huge_numeral_digits number_of_real_def signed_infinity_def)

lemma set_divisions_huge_numeral:
  "knob_divisions (set_divisions (JSString huge_numeral) created) = Some PosInfinity"
  by (simp add: setters_divisions int_or_default_def parseInt_huge_numeral Let_def)

lemma set_divisions_minus_five:
  "knob_divisions (set_divisions (JSString ''-5'') created) = Some (Num (- 5))"
  by (simp add: setters_divisions int_or_default_def parseInt_minus_five Let_def)

text \<open>
  The claim as stated fails twice over. Setting \<^verbatim>\<open>divisions\<close> of a fresh knob to
  the text \<^verbatim>\<open>-5\<close> stores \<open>-5\<close>, which is negative. Setting it to the decimal text
  of \<open>10\<^sup>3\<^sup>0\<^sup>9\<close> stores \<^verbatim>\<open>Infinity\<close>, which is no integer.
\<close>

theorem divisions_negative_counterexample:
  "knob_divisions (knobs (run [Set_divisions 0 (JSString ''-5'')] initial_world) 0)
     = Some (Num (- 5))
   \<and> js_lt (to_number (knob_divisions
               (knobs (run [Set_divisions 0 (JSString ''-5'')] initial_world) 0))) (Num 0)
   \<and> knob_divisions (knobs (run [Set_divisions 0 (JSString huge_numeral)] initial_world) 0)
     = Some PosInfinity
   \<and> \<not> is_integer (knob_divisions
               (knobs (run [Set_divisions 0 (JSString huge_numeral)] initial_world) 0))"
  by (simp add: run_def set_knob_fields initial_world_def set_divisions_minus_five
      set_divisions_huge_numeral)

text \<open>The stored \<open>-5\<close> is an integer.\<close>

theorem divisions_always_integer_or_infinity_witness:
  "is_integer (knob_divisions (knobs (run [Set_divisions 0 (JSString ''-5'')] initial_world) 0))
   \<and> is_integer (knob_divisions (set_divisions (JSString ''-5'') created))"
  using divisions_always_integer_or_infinity
    [of "[Set_divisions 0 (JSString ''-5'')]" 0 "JSString ''-5''" created]
  by (simp add: run_def set_knob_fields initial_world_def set_divisions_minus_five)


section \<open>The claims on the example page\<close>

text \<open>
  The specification's examples: with four divisions \<open>0.4\<close> is stored as \<open>0.5\<close>; with
  \<open>min = 0\<close> and \<open>max = 1\<close> the value \<open>1.5\<close> is stored as \<open>1\<close>; NaN is stored as \<open>0\<close>.
\<close>

theorem update_value_is_ValueTransform_apply_witness:
  "knob_value (set_value (JSNumber (Num (4 / 10)))
      \<lparr>knob_divisions = Some (Num 4), knob_min = None, knob_max = None,
       knob_value = Some (Num 0)\<rparr>) = Some (Num (1 / 2))
   \<and> knob_value (set_value (JSNumber (Num (3 / 2)))
      \<lparr>knob_divisions = Some (Num 0), knob_min = Some (Num 0), knob_max = Some (Num 1),
       knob_value = Some (Num 0)\<rparr>) = Some (Num 1)
   \<and> knob_value (set_value (JSNumber NaN) created) = Some (Num 0)"
  using update_value_is_ValueTransform_apply [of
      "\<lparr>knob_divisions = Some (Num 4), knob_min = None, knob_max = None,
        knob_value = Some (Num 0)\<rparr>" "Num (4 / 10)"]
    update_value_is_ValueTransform_apply [of
      "\<lparr>knob_divisions = Some (Num 0), knob_min = Some (Num 0), knob_max = Some (Num 1),
        knob_value = Some (Num 0)\<rparr>" "Num (3 / 2)"]
    update_value_is_ValueTransform_apply [of created NaN]
  by (simp add: ValueTransform_apply_def sanitize_step_def quantize_step_def
      clamp_high_step_def clamp_low_step_def js_ge_def js_gt_def created_fields)

lemma max_zero_knob:
  "set_max (JSNumber (Num 0)) created = created\<lparr>knob_max := Some (Num 0)\<rparr>"
  by (simp add: set_max_def float_or_default_def update_value_def created_def js_ge_def js_gt_def)

lemma pressed_at_max_eq:
  "pressed_at_max = \<lparr>knobs = (\<lambda>_. created)(0 := created\<lparr>knob_max := Some (Num 0)\<rparr>),
     xknob_being_dragged = Some 0,
     xknob_drag_previous_angle = Some (Num 0), xknob_drag_previous_value = Some (Num 0),
     xknob_drag_initial_value = Some (Num 0), document_listeners = True,
     trace = [PreventDefault, StopPropagation]\<rparr>"
  by (simp add: pressed_at_max_def start_dragging_def angle_press_up initial_world_def Let_def
      remove_listeners_from_document_def add_listeners_to_document_def emit_def
      press_up_fields created_fields set_knob_def max_zero_knob)

lemma quarter_above_max:
  "knob_value (set_value (JSNumber (Num (1 / 4))) (created\<lparr>knob_max := Some (Num 0)\<rparr>))
     = Some (Num 0)"
  by (simp add: set_value_def float_or_default_def update_value_def created_def js_ge_def
      js_gt_def)

lemma pressed_at_max_turn:
  "xknob_drag_previous_value (drag_rotate move_right pressed_at_max) = Some (Num (1 / 4))"
proof -
  have d: "xknob_being_dragged pressed_at_max = Some 0" by (simp add: pressed_at_max_eq)
  have a: "xknob_drag_previous_angle pressed_at_max = Some (Num 0)"
    by (simp add: pressed_at_max_eq)
  have m: "get_mouse_angle move_right - 0 = pi / 2" by (simp add: angle_move_right)
  show ?thesis using quarter_turn [OF d a m] by (simp add: pressed_at_max_eq)
qed

text \<open>
  A quarter turn against \<open>max = 0\<close>: the proposed value moves from \<open>0\<close> to \<open>1/4\<close>, the
  stored value stays \<open>0\<close>, and nothing is dispatched.
\<close>

theorem input_iff_value_changed_witness:
  "xknob_being_dragged pressed_at_max = Some 0
   \<and> xknob_drag_previous_value pressed_at_max = Some (Num 0)
   \<and> xknob_drag_previous_value (drag_rotate move_right pressed_at_max) = Some (Num (1 / 4))
   \<and> knob_value (knobs (drag_rotate move_right pressed_at_max) 0) = Some (Num 0)
   \<and> notifications (trace (drag_rotate move_right pressed_at_max)) = []"
proof -
  have d: "xknob_being_dragged pressed_at_max = Some 0" by (simp add: pressed_at_max_eq)
  have k: "knobs pressed_at_max 0 = created\<lparr>knob_max := Some (Num 0)\<rparr>"
    by (simp add: pressed_at_max_eq)
  have t: "notifications (trace pressed_at_max) = []" by (simp add: pressed_at_max_eq)
  have p: "xknob_drag_previous_value pressed_at_max = Some (Num 0)"
    by (simp add: pressed_at_max_eq)
  note th = input_iff_value_changed [OF d, of move_right]
  have v: "knob_value (knobs (drag_rotate move_right pressed_at_max) 0) = Some (Num 0)"
    using th by (simp add: pressed_at_max_turn k quarter_above_max)
  have n: "notifications (trace (drag_rotate move_right pressed_at_max)) = []"
    using th by (simp add: v k t created_fields)
  show ?thesis using d p v n pressed_at_max_turn by simp
qed

lemma created_set_zero:
  "set_value (JSNumber (Num 0)) (created\<lparr>knob_value := Some (Num (1 / 4))\<rparr>) = created"
  by (simp add: set_value_def float_or_default_def update_value_def created_def js_ge_def)

lemma pi_not_below_minus_half: "\<not> pi < - (pi / 2)"
  using pi_gt_zero by linarith

lemma turned_back_eq:
  "drag_rotate move_up turned =
     \<lparr>knobs = (\<lambda>_. created)(0 := created),
      xknob_being_dragged = Some 0,
      xknob_drag_previous_angle = Some (Num 0),
      xknob_drag_previous_value = Some (Num 0),
      xknob_drag_initial_value = Some (Num 0), document_listeners = True,
      trace = [PreventDefault, StopPropagation, DispatchEvent 0 Input, DispatchEvent 0 Input]\<rparr>"
  unfolding turned_eq
  by (simp add: drag_rotate_def Let_def angle_move_up delta_back js_ge_def js_le_def
      set_knob_def emit_def created_set_zero strict_ne_def created_fields
      pi_not_below_minus_half)

text \<open>
  A drag by a quarter turn dispatches one \<^verbatim>\<open>input\<close> and, at the release, one
  \<^verbatim>\<open>change\<close>; a drag that turns back to where it started dispatches two
  \<^verbatim>\<open>input\<close> events and no \<^verbatim>\<open>change\<close>.
\<close>

theorem change_once_at_pointer_up_witness:
  "xknob_being_dragged (start_dragging press_up initial_world) = Some 0
   \<and> knob_value (knobs initial_world 0) \<noteq> Some NaN
   \<and> notifications (trace (stop_dragging release
        (fold drag_rotate [move_right] (start_dragging press_up initial_world))))
      = [(0, Input), (0, Change)]
   \<and> notifications (trace (stop_dragging release
        (fold drag_rotate [move_right, move_up] (start_dragging press_up initial_world))))
      = [(0, Input), (0, Input)]"
proof -
  have s: "xknob_being_dragged (start_dragging press_up initial_world) = Some 0"
    using pressed_eq by (simp add: pressed_def)
  have v: "knob_value (knobs initial_world 0) \<noteq> Some NaN"
    by (simp add: initial_world_def created_fields)
  have i: "knob_value (knobs initial_world 0) = Some (Num 0)"
    by (simp add: initial_world_def created_fields)
  have 1: "notifications (trace (stop_dragging release
        (fold drag_rotate [move_right] (start_dragging press_up initial_world))))
      = [(0, Input), (0, Change)]"
    using change_once_at_pointer_up [OF s v, of "[move_right]" release]
    by (simp add: Let_def pressed_def [symmetric] turned_def [symmetric] i) (simp add: turned_eq)
  have 2: "notifications (trace (stop_dragging release
        (fold drag_rotate [move_right, move_up] (start_dragging press_up initial_world))))
      = [(0, Input), (0, Input)]"
    using change_once_at_pointer_up [OF s v, of "[move_right, move_up]" release]
    by (simp add: Let_def pressed_def [symmetric] turned_def [symmetric] i turned_back_eq
        created_fields)
  show ?thesis using s v 1 2 by simp
qed

end
